theory Spec2Isabelle
  imports Main "HOL-Library.Word"
begin

unbundle bit_operations_syntax

section \<open>The UART driver of emb1.c\<close>

text \<open>
  The driver consists of three C functions, \<^verbatim>\<open>init_uart\<close>, \<^verbatim>\<open>write_uart\<close> and
  \<^verbatim>\<open>read_uart\<close>, which work on a \<^verbatim>\<open>UART_HANDLE\<close> passed by pointer and on five
  memory-mapped 32-bit registers.  The embedding passes the machine state explicitly:
  \<^item> the handle objects live in a store indexed by their location; a handle pointer is
    \<open>None\<close> (the C null pointer) or \<open>Some p\<close>;
  \<^item> the registers live in a register file \<open>regs\<close> indexed by 64-bit addresses
    (\<^verbatim>\<open>uintptr_t\<close> on the 64-bit platform the source names); handle objects and
    registers do not overlap;
  \<^item> every access through a \<^verbatim>\<open>volatile\<close> pointer is recorded, in program order, in
    \<open>accesses\<close>;
  \<^item> every \<^verbatim>\<open>printf\<close> appends its string to \<open>stdout\<close>;
  \<^item> the registers are volatile: the device may change them while the driver spins.
    The device is a function \<open>dev\<close> from the current time and register file to the
    next register file; one device step is taken per iteration of a busy-wait loop.
\<close>

subsection \<open>Constants\<close>

type_synonym addr = "64 word"
type_synonym uint32_t = "32 word"

definition UART_BASE :: uint32_t where "UART_BASE = 0xFC000000"
definition CNR_OFFSET :: uint32_t where "CNR_OFFSET = 0x0"
definition BRR_OFFSET :: uint32_t where "BRR_OFFSET = 0x4"
definition STA_OFFSET :: uint32_t where "STA_OFFSET = 0x8"
definition TDR_OFFSET :: uint32_t where "TDR_OFFSET = 0xC"
definition RDR_OFFSET :: uint32_t where "RDR_OFFSET = 0x10"

definition TIMEOUT_LIMIT :: int where "TIMEOUT_LIMIT = 1000000"

text \<open>
  \<^verbatim>\<open>UART_BASE\<close> is the literal \<^verbatim>\<open>0xFC000000\<close>, an \<^verbatim>\<open>unsigned int\<close>; the sums
  \<^verbatim>\<open>UART_BASE + XXX_OFFSET\<close> are computed in 32 bits and then converted to a pointer
  (zero extension).
\<close>

definition ptr_of :: "uint32_t \<Rightarrow> addr" where
  "ptr_of v = ucast v"

subsection \<open>The messages printed by the driver\<close>

definition MSG_NULL :: string where
  "MSG_NULL = ''Null pointer encountered '' @ [CHR 0x0A]"

definition MSG_WRITE_NOT_INIT :: string where
  "MSG_WRITE_NOT_INIT = ''UART is not initialized.'' @ [CHR 0x0A]"

definition MSG_WRITE_TIMEOUT :: string where
  "MSG_WRITE_TIMEOUT =
     ''Maximum timeout reached. Device is not yet available to write new data''"

definition MSG_WRITING :: string where
  "MSG_WRITING = ''Writing data .. '' @ [CHR 0x0A]"

definition MSG_READ_NOT_INIT :: string where
  "MSG_READ_NOT_INIT = ''UART not initialized'' @ [CHR 0x0A]"

definition MSG_READ_TIMEOUT :: string where
  "MSG_READ_TIMEOUT =
     ''Maximum timeout reached. Device is not yet available to read new data''"

subsection \<open>State\<close>

record UART_HANDLE =
  baseAddress :: addr
  cnr :: addr
  brr :: addr
  sta :: addr
  tdr :: addr
  rdr :: addr
  isInitialized :: bool

datatype access = Load addr uint32_t | Store addr uint32_t

record world =
  handles :: "nat \<Rightarrow> UART_HANDLE"
  regs :: "addr \<Rightarrow> uint32_t"
  dev :: "nat \<Rightarrow> (addr \<Rightarrow> uint32_t) \<Rightarrow> addr \<Rightarrow> uint32_t"
  clock :: nat
  accesses :: "access list"
  stdout :: "string list"

definition load32 :: "addr \<Rightarrow> world \<Rightarrow> uint32_t \<times> world" where
  "load32 a w = (regs w a, w\<lparr>accesses := accesses w @ [Load a (regs w a)]\<rparr>)"

definition store32 :: "addr \<Rightarrow> uint32_t \<Rightarrow> world \<Rightarrow> world" where
  "store32 a v w = w\<lparr>regs := (regs w)(a := v), accesses := accesses w @ [Store a v]\<rparr>"

definition printf :: "string \<Rightarrow> world \<Rightarrow> world" where
  "printf s w = w\<lparr>stdout := stdout w @ [s]\<rparr>"

definition set_handle :: "nat \<Rightarrow> (UART_HANDLE \<Rightarrow> UART_HANDLE) \<Rightarrow> world \<Rightarrow> world" where
  "set_handle p f w = w\<lparr>handles := (handles w)(p := f (handles w p))\<rparr>"

definition tick :: "world \<Rightarrow> world" where
  "tick w = w\<lparr>regs := dev w (clock w) (regs w), clock := Suc (clock w)\<rparr>"

subsection \<open>write_uart\<close>

text \<open>
  The loop of \<^verbatim>\<open>write_uart\<close> (lines 110 to 118).  \<^verbatim>\<open>staVal\<close> is the local variable
  assigned once before the loop; the loop body increments \<^verbatim>\<open>timer\<close> and returns from
  the function when it exceeds the limit.  The result is \<open>True\<close> when the loop is left
  through its condition and \<open>False\<close> when the function returns from inside the loop.
  \<^verbatim>\<open>timer\<close> is a C \<^verbatim>\<open>int\<close> that starts at 0 and never exceeds 1000001, so it does
  not overflow.
\<close>

function write_uart_loop :: "uint32_t \<Rightarrow> int \<Rightarrow> world \<Rightarrow> bool \<times> world" where
  "write_uart_loop staVal timer w =
     (if staVal AND 0x02 \<noteq> 0 then (True, w)
      else let timer' = timer + 1; w' = tick w in
        if timer' > TIMEOUT_LIMIT then (False, printf MSG_WRITE_TIMEOUT w')
        else write_uart_loop staVal timer' w')"
  by pat_completeness auto
termination
  by (relation "measure (\<lambda>(staVal, timer, w). nat (TIMEOUT_LIMIT - timer))") auto

declare write_uart_loop.simps [simp del]

text \<open>
  The parameter \<^verbatim>\<open>char c\<close> is converted to \<^verbatim>\<open>uint32_t\<close> by the assignment to
  \<^verbatim>\<open>*(h->tdr)\<close>; \<^verbatim>\<open>char\<close> is signed on the platform, so the conversion extends the
  sign.
\<close>

definition write_uart :: "nat option \<Rightarrow> 8 word \<Rightarrow> world \<Rightarrow> world" where
  "write_uart h c w =
     (case h of
        None \<Rightarrow> printf MSG_NULL w
      | Some p \<Rightarrow>
          if isInitialized (handles w p) = False then printf MSG_WRITE_NOT_INIT w
          else
            (case load32 (sta (handles w p)) w of (staVal, w1) \<Rightarrow>
             (case write_uart_loop staVal 0 w1 of (ready, w2) \<Rightarrow>
                if \<not> ready then w2
                else store32 (tdr (handles w2 p)) (scast c) (printf MSG_WRITING w2))))"

subsection \<open>read_uart\<close>

function read_uart_loop :: "uint32_t \<Rightarrow> int \<Rightarrow> world \<Rightarrow> bool \<times> world" where
  "read_uart_loop staVal timer w =
     (if staVal AND 0x01 \<noteq> 0 then (True, w)
      else let timer' = timer + 1; w' = tick w in
        if timer' > TIMEOUT_LIMIT then (False, printf MSG_READ_TIMEOUT w')
        else read_uart_loop staVal timer' w')"
  by pat_completeness auto
termination
  by (relation "measure (\<lambda>(staVal, timer, w). nat (TIMEOUT_LIMIT - timer))") auto

declare read_uart_loop.simps [simp del]

text \<open>
  \<^verbatim>\<open>read_uart\<close> returns an \<^verbatim>\<open>int\<close>: \<open>-1\<close> on its three early returns, and
  \<^verbatim>\<open>rdrVal\<close>, a \<^verbatim>\<open>uint32_t\<close> converted to \<^verbatim>\<open>int\<close> (two's complement), at the end.
\<close>

definition read_uart :: "nat option \<Rightarrow> world \<Rightarrow> int \<times> world" where
  "read_uart h w =
     (case h of
        None \<Rightarrow> (- 1, printf MSG_NULL w)
      | Some p \<Rightarrow>
          if isInitialized (handles w p) = False then (- 1, printf MSG_READ_NOT_INIT w)
          else
            (case load32 (sta (handles w p)) w of (staVal, w1) \<Rightarrow>
             (case read_uart_loop staVal 0 w1 of (ready, w2) \<Rightarrow>
                if \<not> ready then (- 1, w2)
                else
                  (case load32 (rdr (handles w2 p)) w2 of (rdrVal, w3) \<Rightarrow>
                     (sint rdrVal, w3)))))"

subsection \<open>init_uart\<close>

definition init_uart :: "nat option \<Rightarrow> bool \<Rightarrow> world \<Rightarrow> world" where
  "init_uart h useMock w =
     (case h of
        None \<Rightarrow> printf MSG_NULL w
      | Some p \<Rightarrow>
          let w1 = set_handle p (\<lambda>u. u\<lparr>baseAddress := ptr_of UART_BASE\<rparr>) w;
              w2 = set_handle p (\<lambda>u. u\<lparr>cnr := ptr_of (UART_BASE + CNR_OFFSET)\<rparr>) w1;
              w3 = set_handle p (\<lambda>u. u\<lparr>brr := ptr_of (UART_BASE + BRR_OFFSET)\<rparr>) w2;
              w4 = set_handle p (\<lambda>u. u\<lparr>sta := ptr_of (UART_BASE + STA_OFFSET)\<rparr>) w3;
              w5 = set_handle p (\<lambda>u. u\<lparr>tdr := ptr_of (UART_BASE + TDR_OFFSET)\<rparr>) w4;
              w6 = set_handle p (\<lambda>u. u\<lparr>rdr := ptr_of (UART_BASE + RDR_OFFSET)\<rparr>) w5;
              w7 = store32 (cnr (handles w6 p)) 0x3 w6;
              w8 = store32 (brr (handles w7 p)) 0x0866 w7
          in set_handle p (\<lambda>u. u\<lparr>isInitialized := True\<rparr>) w8)"

subsection \<open>The documented layout of the baud rate register\<close>

text \<open>
  The header comment of emb1.c documents the fields of BRR: bits 0 to 3 select the baud
  rate, bits 4 and 5 the parity, bit 8 enables hardware flow control, bits 12 to 15
  contain the number of stop bits.  The driver itself has no code for this layout (it
  stores a literal); the functions below are that comment, written out.
\<close>

definition BRR_pack :: "uint32_t \<Rightarrow> uint32_t \<Rightarrow> uint32_t \<Rightarrow> uint32_t \<Rightarrow> uint32_t" where
  "BRR_pack baud parity flow stop =
     (baud AND 0xF) OR push_bit 4 (parity AND 0x3) OR push_bit 8 (flow AND 0x1)
       OR push_bit 12 (stop AND 0xF)"

definition BRR_baud :: "uint32_t \<Rightarrow> uint32_t" where
  "BRR_baud v = v AND 0xF"

definition BRR_parity :: "uint32_t \<Rightarrow> uint32_t" where
  "BRR_parity v = drop_bit 4 v AND 0x3"

definition BRR_flow :: "uint32_t \<Rightarrow> uint32_t" where
  "BRR_flow v = drop_bit 8 v AND 0x1"

definition BRR_stop :: "uint32_t \<Rightarrow> uint32_t" where
  "BRR_stop v = drop_bit 12 v AND 0xF"

subsection \<open>Concrete machine states\<close>

text \<open>
  \<open>start_world\<close> is a machine on which nothing has happened: no handle is initialized
  (as \<^verbatim>\<open>main\<close> sets up its handle), all registers read 0 and the device never
  changes a register.  \<open>ready_world\<close> is the state after \<^verbatim>\<open>main\<close>'s call
  \<^verbatim>\<open>init_uart(&uartHandle, true)\<close>, the handle being at location 0.  In
  \<open>late_world v\<close> the status register reads 0 and the device stores \<open>v\<close> into it at
  every step from the first one on.  In \<open>rx_world v\<close> the status register has RX ready
  set and the receive data register holds \<open>v\<close>.
\<close>

definition blank_handle :: UART_HANDLE where
  "blank_handle = \<lparr>baseAddress = 0, cnr = 0, brr = 0, sta = 0, tdr = 0, rdr = 0,
     isInitialized = False\<rparr>"

definition start_world :: world where
  "start_world = \<lparr>handles = (\<lambda>p. blank_handle), regs = (\<lambda>a. 0), dev = (\<lambda>t m. m),
     clock = 0, accesses = [], stdout = []\<rparr>"

definition ready_world :: world where
  "ready_world = init_uart (Some 0) True start_world"

definition late_world :: "uint32_t \<Rightarrow> world" where
  "late_world v = ready_world\<lparr>dev := (\<lambda>t m. m(0xFC000008 := v))\<rparr>"

definition rx_world :: "uint32_t \<Rightarrow> world" where
  "rx_world v = ready_world\<lparr>regs := (regs ready_world)(0xFC000008 := 0x01, 0xFC000010 := v)\<rparr>"

section \<open>Properties\<close>

subsection \<open>Register addresses\<close>

lemma reg_addrs:
  "ptr_of UART_BASE = 0xFC000000"
  "ptr_of (UART_BASE + CNR_OFFSET) = 0xFC000000"
  "ptr_of (UART_BASE + BRR_OFFSET) = 0xFC000004"
  "ptr_of (UART_BASE + STA_OFFSET) = 0xFC000008"
  "ptr_of (UART_BASE + TDR_OFFSET) = 0xFC00000C"
  "ptr_of (UART_BASE + RDR_OFFSET) = 0xFC000010"
  by (simp_all add: ptr_of_def UART_BASE_def CNR_OFFSET_def BRR_OFFSET_def STA_OFFSET_def
      TDR_OFFSET_def RDR_OFFSET_def)

subsection \<open>Effect of the primitive steps on each state component\<close>

lemma tick_fields [simp]:
  "handles (tick w) = handles w"
  "accesses (tick w) = accesses w"
  "stdout (tick w) = stdout w"
  "dev (tick w) = dev w"
  by (simp_all add: tick_def)

lemma ticks_fields [simp]:
  "handles ((tick ^^ n) w) = handles w"
  "accesses ((tick ^^ n) w) = accesses w"
  "stdout ((tick ^^ n) w) = stdout w"
  "dev ((tick ^^ n) w) = dev w"
  by (induction n) simp_all

lemma printf_fields [simp]:
  "handles (printf s w) = handles w"
  "accesses (printf s w) = accesses w"
  "regs (printf s w) = regs w"
  "stdout (printf s w) = stdout w @ [s]"
  "dev (printf s w) = dev w"
  "clock (printf s w) = clock w"
  by (simp_all add: printf_def)

lemma load32_fields [simp]:
  "fst (load32 a w) = regs w a"
  "handles (snd (load32 a w)) = handles w"
  "regs (snd (load32 a w)) = regs w"
  "stdout (snd (load32 a w)) = stdout w"
  "accesses (snd (load32 a w)) = accesses w @ [Load a (regs w a)]"
  "dev (snd (load32 a w)) = dev w"
  "clock (snd (load32 a w)) = clock w"
  by (simp_all add: load32_def)

lemma store32_fields [simp]:
  "handles (store32 a v w) = handles w"
  "regs (store32 a v w) = (regs w)(a := v)"
  "stdout (store32 a v w) = stdout w"
  "accesses (store32 a v w) = accesses w @ [Store a v]"
  "dev (store32 a v w) = dev w"
  "clock (store32 a v w) = clock w"
  by (simp_all add: store32_def)

lemma set_handle_fields [simp]:
  "handles (set_handle p f w) = (handles w)(p := f (handles w p))"
  "regs (set_handle p f w) = regs w"
  "stdout (set_handle p f w) = stdout w"
  "accesses (set_handle p f w) = accesses w"
  "dev (set_handle p f w) = dev w"
  "clock (set_handle p f w) = clock w"
  by (simp_all add: set_handle_def)

subsection \<open>The busy-wait loops\<close>

lemma write_uart_loop_ready:
  "staVal AND 0x02 \<noteq> 0 \<Longrightarrow> write_uart_loop staVal timer w = (True, w)"
  by (subst write_uart_loop.simps) simp

lemma write_uart_loop_busy:
  "staVal AND 0x02 = 0 \<Longrightarrow> timer \<le> TIMEOUT_LIMIT \<Longrightarrow>
   write_uart_loop staVal timer w =
     (False, printf MSG_WRITE_TIMEOUT ((tick ^^ nat (TIMEOUT_LIMIT + 1 - timer)) w))"
proof (induction staVal timer w rule: write_uart_loop.induct)
  case (1 staVal timer w)
  show ?case
  proof (cases "timer + 1 > TIMEOUT_LIMIT")
    case True
    with "1.prems" have "nat (TIMEOUT_LIMIT + 1 - timer) = 1" by simp
    with True "1.prems" show ?thesis
      by (subst write_uart_loop.simps) (simp add: Let_def)
  next
    case False
    then have n: "nat (TIMEOUT_LIMIT + 1 - timer) = Suc (nat (TIMEOUT_LIMIT + 1 - (timer + 1)))"
      by simp
    have "write_uart_loop staVal timer w = write_uart_loop staVal (timer + 1) (tick w)"
      using False "1.prems" by (subst write_uart_loop.simps) (simp add: Let_def)
    also have "\<dots> = (False, printf MSG_WRITE_TIMEOUT
        ((tick ^^ nat (TIMEOUT_LIMIT + 1 - (timer + 1))) (tick w)))"
      using "1.IH" [OF _ refl refl] False "1.prems" by simp
    finally show ?thesis
      by (simp only: n funpow_Suc_right o_apply)
  qed
qed

lemma read_uart_loop_ready:
  "staVal AND 0x01 \<noteq> 0 \<Longrightarrow> read_uart_loop staVal timer w = (True, w)"
  by (subst read_uart_loop.simps) simp

lemma read_uart_loop_busy:
  "staVal AND 0x01 = 0 \<Longrightarrow> timer \<le> TIMEOUT_LIMIT \<Longrightarrow>
   read_uart_loop staVal timer w =
     (False, printf MSG_READ_TIMEOUT ((tick ^^ nat (TIMEOUT_LIMIT + 1 - timer)) w))"
proof (induction staVal timer w rule: read_uart_loop.induct)
  case (1 staVal timer w)
  show ?case
  proof (cases "timer + 1 > TIMEOUT_LIMIT")
    case True
    with "1.prems" have "nat (TIMEOUT_LIMIT + 1 - timer) = 1" by simp
    with True "1.prems" show ?thesis
      by (subst read_uart_loop.simps) (simp add: Let_def)
  next
    case False
    then have n: "nat (TIMEOUT_LIMIT + 1 - timer) = Suc (nat (TIMEOUT_LIMIT + 1 - (timer + 1)))"
      by simp
    have "read_uart_loop staVal timer w = read_uart_loop staVal (timer + 1) (tick w)"
      using False "1.prems" by (subst read_uart_loop.simps) (simp add: Let_def)
    also have "\<dots> = (False, printf MSG_READ_TIMEOUT
        ((tick ^^ nat (TIMEOUT_LIMIT + 1 - (timer + 1))) (tick w)))"
      using "1.IH" [OF _ refl refl] False "1.prems" by simp
    finally show ?thesis
      by (simp only: n funpow_Suc_right o_apply)
  qed
qed

subsection \<open>The three operations, with the loops resolved\<close>

lemma write_uart_Some:
  "write_uart (Some p) c w =
     (if \<not> isInitialized (handles w p) then printf MSG_WRITE_NOT_INIT w
      else if regs w (sta (handles w p)) AND 0x02 = 0
      then printf MSG_WRITE_TIMEOUT
             ((tick ^^ nat (TIMEOUT_LIMIT + 1)) (snd (load32 (sta (handles w p)) w)))
      else store32 (tdr (handles w p)) (scast c)
             (printf MSG_WRITING (snd (load32 (sta (handles w p)) w))))"
proof -
  have lim: "(0::int) \<le> TIMEOUT_LIMIT" by (simp add: TIMEOUT_LIMIT_def)
  show ?thesis
    by (simp add: write_uart_def load32_def write_uart_loop_ready write_uart_loop_busy lim)
qed

lemma read_uart_Some:
  "read_uart (Some p) w =
     (if \<not> isInitialized (handles w p) then (- 1, printf MSG_READ_NOT_INIT w)
      else if regs w (sta (handles w p)) AND 0x01 = 0
      then (- 1, printf MSG_READ_TIMEOUT
             ((tick ^^ nat (TIMEOUT_LIMIT + 1)) (snd (load32 (sta (handles w p)) w))))
      else (sint (regs w (rdr (handles w p))),
            snd (load32 (rdr (handles w p)) (snd (load32 (sta (handles w p)) w)))))"
proof -
  have lim: "(0::int) \<le> TIMEOUT_LIMIT" by (simp add: TIMEOUT_LIMIT_def)
  show ?thesis
    by (simp add: read_uart_def load32_def read_uart_loop_ready read_uart_loop_busy lim)
qed

lemma init_uart_Some_handles:
  "handles (init_uart (Some p) useMock w) =
     (handles w)(p := \<lparr>baseAddress = 0xFC000000, cnr = 0xFC000000, brr = 0xFC000004,
        sta = 0xFC000008, tdr = 0xFC00000C, rdr = 0xFC000010, isInitialized = True\<rparr>)"
  by (simp add: init_uart_def Let_def reg_addrs fun_eq_iff)

lemma init_uart_Some_regs:
  "regs (init_uart (Some p) useMock w) = (regs w)(0xFC000000 := 0x3, 0xFC000004 := 0x866)"
  by (simp add: init_uart_def Let_def reg_addrs)

lemma init_uart_Some_accesses:
  "accesses (init_uart (Some p) useMock w) =
     accesses w @ [Store 0xFC000000 0x3, Store 0xFC000004 0x866]"
  by (simp add: init_uart_def Let_def reg_addrs)

lemma init_uart_Some_stdout:
  "stdout (init_uart (Some p) useMock w) = stdout w"
  by (simp add: init_uart_def Let_def)

subsection \<open>The device while the driver spins\<close>

lemma clock_ticks: "clock ((tick ^^ n) w) = clock w + n"
  by (induction n) (simp_all add: tick_def)

lemma regs_ticks_const_dev_Suc:
  "dev w = (\<lambda>t m. m(a := v)) \<Longrightarrow> regs ((tick ^^ Suc n) w) = (regs w)(a := v)"
  by (induction n) (simp_all add: tick_def)

lemma regs_ticks_const_dev:
  "dev w = (\<lambda>t m. m(a := v)) \<Longrightarrow> 0 < n \<Longrightarrow> regs ((tick ^^ n) w) = (regs w)(a := v)"
  using regs_ticks_const_dev_Suc [of w a v "n - 1"] by simp

lemma regs_ticks_idle_dev:
  "dev w = (\<lambda>t m. m) \<Longrightarrow> regs ((tick ^^ n) w) = regs w"
  by (induction n) (simp_all add: tick_def)

lemma timeout_ticks: "nat (TIMEOUT_LIMIT + 1) = 1000001"
  by (simp add: TIMEOUT_LIMIT_def)

subsection \<open>The concrete machine states\<close>

lemma start_world_fields [simp]:
  "handles start_world p = blank_handle"
  "regs start_world a = 0"
  "dev start_world = (\<lambda>t m. m)"
  "clock start_world = 0"
  "accesses start_world = []"
  "stdout start_world = []"
  by (simp_all add: start_world_def)

lemma ready_world_fields [simp]:
  "handles ready_world 0 = \<lparr>baseAddress = 0xFC000000, cnr = 0xFC000000, brr = 0xFC000004,
        sta = 0xFC000008, tdr = 0xFC00000C, rdr = 0xFC000010, isInitialized = True\<rparr>"
  "regs ready_world = (\<lambda>a. 0)(0xFC000000 := 0x3, 0xFC000004 := 0x866)"
  "accesses ready_world = [Store 0xFC000000 0x3, Store 0xFC000004 0x866]"
  "stdout ready_world = []"
  "dev ready_world = (\<lambda>t m. m)"
  "clock ready_world = 0"
  by (simp_all add: ready_world_def init_uart_Some_handles init_uart_Some_regs
      init_uart_Some_accesses init_uart_Some_stdout fun_eq_iff)
     (simp_all add: init_uart_def Let_def set_handle_def store32_def)

lemma null_handle:
  "init_uart None useMock w = printf MSG_NULL w"
  "write_uart None c w = printf MSG_NULL w"
  "read_uart None w = (- 1, printf MSG_NULL w)"
  by (simp_all add: init_uart_def write_uart_def read_uart_def)

lemma messages_differ:
  "MSG_NULL \<noteq> MSG_WRITE_NOT_INIT" "MSG_NULL \<noteq> MSG_WRITE_TIMEOUT"
  "MSG_WRITE_NOT_INIT \<noteq> MSG_WRITE_TIMEOUT"
  "MSG_NULL \<noteq> MSG_READ_NOT_INIT" "MSG_NULL \<noteq> MSG_READ_TIMEOUT"
  "MSG_READ_NOT_INIT \<noteq> MSG_READ_TIMEOUT"
  by (simp_all add: MSG_NULL_def MSG_WRITE_NOT_INIT_def MSG_WRITE_TIMEOUT_def
      MSG_READ_NOT_INIT_def MSG_READ_TIMEOUT_def)

lemma rx_world_fields [simp]:
  "handles (rx_world v) = handles ready_world"
  "regs (rx_world v) = (regs ready_world)(0xFC000008 := 0x01, 0xFC000010 := v)"
  "accesses (rx_world v) = accesses ready_world"
  "stdout (rx_world v) = stdout ready_world"
  by (simp_all add: rx_world_def)

section \<open>The claims\<close>

text \<open>
  Claim C1 (polling).  The claim is that \<^verbatim>\<open>write_uart\<close> and \<^verbatim>\<open>read_uart\<close> poll the
  status register repeatedly, so that a ready bit that becomes set during the wait lets
  the operation proceed.  The code loads the status register once, before the loop, and
  the loop tests the local copy.  The theorem runs both functions on an initialized
  handle whose status register reads 0 at the call and has the ready bit (TX ready,
  value 2, for the write; RX ready, value 1, for the read) from the first iteration of
  the wait on: each function loads the status register exactly once, spins for 1000001
  iterations, prints its timeout message and returns, \<^verbatim>\<open>write_uart\<close> without storing
  to the transmit data register and \<^verbatim>\<open>read_uart\<close> with \<open>-1\<close>, while the status
  register shows the ready bit at the return.
\<close>

theorem status_register_read_once_before_wait:
  "regs (late_world 0x02) 0xFC000008 = 0 \<and>
   isInitialized (handles (late_world 0x02) 0) \<and>
   dev (late_world 0x02) 0 (regs (late_world 0x02)) 0xFC000008 = 0x02 \<and>
   accesses (write_uart (Some 0) 0x41 (late_world 0x02)) =
     accesses (late_world 0x02) @ [Load 0xFC000008 0] \<and>
   stdout (write_uart (Some 0) 0x41 (late_world 0x02)) = [MSG_WRITE_TIMEOUT] \<and>
   regs (write_uart (Some 0) 0x41 (late_world 0x02)) 0xFC000008 = 0x02 \<and>
   regs (write_uart (Some 0) 0x41 (late_world 0x02)) 0xFC00000C = 0 \<and>
   clock (write_uart (Some 0) 0x41 (late_world 0x02)) = 1000001 \<and>
   regs (late_world 0x01) 0xFC000008 = 0 \<and>
   isInitialized (handles (late_world 0x01) 0) \<and>
   dev (late_world 0x01) 0 (regs (late_world 0x01)) 0xFC000008 = 0x01 \<and>
   fst (read_uart (Some 0) (late_world 0x01)) = - 1 \<and>
   accesses (snd (read_uart (Some 0) (late_world 0x01))) =
     accesses (late_world 0x01) @ [Load 0xFC000008 0] \<and>
   stdout (snd (read_uart (Some 0) (late_world 0x01))) = [MSG_READ_TIMEOUT] \<and>
   regs (snd (read_uart (Some 0) (late_world 0x01))) 0xFC000008 = 0x01"
  by (simp add: late_world_def write_uart_Some read_uart_Some timeout_ticks
      regs_ticks_const_dev load32_def clock_ticks)

text \<open>
  Claim C2 (value of the baud rate register).  The claim is that \<^verbatim>\<open>init_uart\<close>
  stores the packed encoding of baud code 6, parity code 2, flow control 0 and stop-bit
  count 1, with no other bit set; by the documented layout that is \<open>0x1026\<close>.  The
  code stores \<open>0x0866\<close>: its baud field is 6, its parity field 2 and its flow-control
  bit 0, but its stop-bit field (bits 12 to 15) is 0, and bits 6 and 11, which belong
  to no field, are set.
\<close>

theorem init_uart_brr_value_against_documented_layout:
  "regs (init_uart (Some p) useMock w) (brr (handles (init_uart (Some p) useMock w) p)) = 0x0866 \<and>
   BRR_baud 0x0866 = 6 \<and> BRR_parity 0x0866 = 2 \<and> BRR_flow 0x0866 = 0 \<and>
   BRR_stop 0x0866 = 0 \<and>
   BRR_pack 6 2 0 1 = 0x1026 \<and>
   0x0866 \<noteq> BRR_pack 6 2 0 1 \<and>
   0x0866 AND NOT (BRR_pack 0xF 0x3 0x1 0xF) = 0x840"
  by (simp add: init_uart_Some_handles init_uart_Some_regs BRR_pack_def BRR_baud_def
      BRR_parity_def BRR_flow_def BRR_stop_def)

text \<open>
  Claim C3 (explicit outcomes), as amended.  \<^verbatim>\<open>init_uart\<close> and \<^verbatim>\<open>write_uart\<close> return
  \<^verbatim>\<open>void\<close>, and \<^verbatim>\<open>read_uart\<close> returns the \<^verbatim>\<open>int\<close> \<open>-1\<close> for a null handle, for an
  uninitialized handle and on timeout alike, and the value of the receive data register
  on success.  What tells the outcomes apart is the message printed: every error path of
  every operation prints exactly one message, and the messages for a null handle, for an
  uninitialized handle and for a timeout differ; a successful \<^verbatim>\<open>init_uart\<close> or
  \<^verbatim>\<open>read_uart\<close> prints nothing and a successful \<^verbatim>\<open>write_uart\<close> prints
  \<^verbatim>\<open>Writing data ..\<close>.
\<close>

theorem error_kind_reported_by_message:
  "stdout (init_uart None useMock w) = stdout w @ [MSG_NULL] \<and>
   stdout (init_uart (Some p) useMock w) = stdout w \<and>
   stdout (write_uart h c w) = stdout w @
     [case h of None \<Rightarrow> MSG_NULL
      | Some p \<Rightarrow>
          if \<not> isInitialized (handles w p) then MSG_WRITE_NOT_INIT
          else if regs w (sta (handles w p)) AND 0x02 = 0 then MSG_WRITE_TIMEOUT
          else MSG_WRITING] \<and>
   (fst (read_uart h w), stdout (snd (read_uart h w))) =
     (case h of None \<Rightarrow> (- 1, stdout w @ [MSG_NULL])
      | Some p \<Rightarrow>
          if \<not> isInitialized (handles w p) then (- 1, stdout w @ [MSG_READ_NOT_INIT])
          else if regs w (sta (handles w p)) AND 0x01 = 0
          then (- 1, stdout w @ [MSG_READ_TIMEOUT])
          else (sint (regs w (rdr (handles w p))), stdout w)) \<and>
   MSG_NULL \<noteq> MSG_WRITE_NOT_INIT \<and> MSG_NULL \<noteq> MSG_WRITE_TIMEOUT \<and>
   MSG_WRITE_NOT_INIT \<noteq> MSG_WRITE_TIMEOUT \<and>
   MSG_NULL \<noteq> MSG_READ_NOT_INIT \<and> MSG_NULL \<noteq> MSG_READ_TIMEOUT \<and>
   MSG_READ_NOT_INIT \<noteq> MSG_READ_TIMEOUT"
proof -
  have i: "stdout (init_uart None useMock w) = stdout w @ [MSG_NULL]"
    by (simp add: null_handle)
  have w: "stdout (write_uart h c w) = stdout w @
     [case h of None \<Rightarrow> MSG_NULL
      | Some p \<Rightarrow>
          if \<not> isInitialized (handles w p) then MSG_WRITE_NOT_INIT
          else if regs w (sta (handles w p)) AND 0x02 = 0 then MSG_WRITE_TIMEOUT
          else MSG_WRITING]"
    by (cases h) (simp_all add: write_uart_Some null_handle)
  have r: "(fst (read_uart h w), stdout (snd (read_uart h w))) =
     (case h of None \<Rightarrow> (- 1, stdout w @ [MSG_NULL])
      | Some p \<Rightarrow>
          if \<not> isInitialized (handles w p) then (- 1, stdout w @ [MSG_READ_NOT_INIT])
          else if regs w (sta (handles w p)) AND 0x01 = 0
          then (- 1, stdout w @ [MSG_READ_TIMEOUT])
          else (sint (regs w (rdr (handles w p))), stdout w))"
    by (cases h) (simp_all add: read_uart_Some null_handle)
  show ?thesis
    using i w r messages_differ by (simp only: init_uart_Some_stdout simp_thms)
qed

text \<open>
  Claim C3 as stated fails: the value returned by \<^verbatim>\<open>read_uart\<close> is the same for a null
  handle, for an uninitialized handle, for a timeout and for a successful read of the
  register value \<open>0xFFFFFFFF\<close> (a read that loads the status and the receive data
  register and prints no message).
\<close>

theorem read_uart_results_coincide:
  "fst (read_uart None start_world) = fst (read_uart (Some 0) start_world) \<and>
   fst (read_uart (Some 0) start_world) = fst (read_uart (Some 0) ready_world) \<and>
   stdout (snd (read_uart (Some 0) ready_world)) = [MSG_READ_TIMEOUT] \<and>
   fst (read_uart (Some 0) ready_world) = fst (read_uart (Some 0) (rx_world 0xFFFFFFFF)) \<and>
   stdout (snd (read_uart (Some 0) (rx_world 0xFFFFFFFF))) = [] \<and>
   accesses (snd (read_uart (Some 0) (rx_world 0xFFFFFFFF))) =
     accesses ready_world @ [Load 0xFC000008 0x01, Load 0xFC000010 0xFFFFFFFF]"
  by (simp add: read_uart_Some null_handle blank_handle_def)

text \<open>
  Claim C4 (the \<^verbatim>\<open>useMock\<close> flag), as amended.  \<^verbatim>\<open>init_uart\<close> never looks at
  \<^verbatim>\<open>useMock\<close>: its effect is the same for both values of the flag, and for a non-null
  handle the register addresses are those of the real hardware at base address
  \<open>0xFC000000\<close>.
\<close>

theorem init_uart_ignores_useMock:
  "init_uart h True w = init_uart h False w \<and>
   handles (init_uart (Some p) useMock w) p =
     \<lparr>baseAddress = 0xFC000000, cnr = 0xFC000000, brr = 0xFC000004, sta = 0xFC000008,
      tdr = 0xFC00000C, rdr = 0xFC000010, isInitialized = True\<rparr>"
  by (simp add: init_uart_Some_handles) (simp add: init_uart_def)

text \<open>
  Claim C4 as stated (the addressing differs between the two modes) fails: on the handle
  of \<^verbatim>\<open>main\<close>, both modes give the same handle contents, with the status register at
  \<open>0xFC000008\<close>.
\<close>

theorem init_uart_addressing_same_for_both_modes:
  "handles (init_uart (Some 0) True start_world) 0 =
     handles (init_uart (Some 0) False start_world) 0 \<and>
   sta (handles (init_uart (Some 0) True start_world) 0) = 0xFC000008 \<and>
   sta (handles (init_uart (Some 0) False start_world) 0) = 0xFC000008"
  by (simp add: init_uart_Some_handles)

text \<open>
  Claim C5 (what \<^verbatim>\<open>init_uart\<close> leaves behind).  For every non-null handle,
  \<^verbatim>\<open>init_uart\<close> sets the base address to \<open>0xFC000000\<close> and the five register
  addresses to the base address plus 0x0 (control), 0x4 (baud rate), 0x8 (status), 0xC
  (transmit data) and 0x10 (receive data); it ends with \<^verbatim>\<open>isInitialized\<close> true, the
  control register holding \<open>0x3\<close> and the baud rate register holding \<open>0x866\<close>, these
  two stores being its only register accesses.
\<close>

theorem init_uart_postcondition:
  "(let w' = init_uart (Some p) useMock w; u = handles w' p in
      baseAddress u = 0xFC000000 \<and>
      cnr u = baseAddress u + 0x0 \<and>
      brr u = baseAddress u + 0x4 \<and>
      sta u = baseAddress u + 0x8 \<and>
      tdr u = baseAddress u + 0xC \<and>
      rdr u = baseAddress u + 0x10 \<and>
      isInitialized u = True \<and>
      regs w' (cnr u) = 0x3 \<and>
      regs w' (brr u) = 0x866 \<and>
      accesses w' = accesses w @ [Store (cnr u) 0x3, Store (brr u) 0x866])"
  by (simp add: Let_def init_uart_Some_handles init_uart_Some_regs init_uart_Some_accesses)

text \<open>
  Claim C6 (uninitialized handle).  On a non-null handle whose \<^verbatim>\<open>isInitialized\<close> is
  false, \<^verbatim>\<open>write_uart\<close> and \<^verbatim>\<open>read_uart\<close> take their not-initialized error path:
  each prints its not-initialized message and does nothing else, \<^verbatim>\<open>read_uart\<close>
  returning \<open>-1\<close>.  No register is loaded or stored, the register file and the handles
  are as before.
\<close>

theorem not_initialized_refused:
  "\<not> isInitialized (handles w p) \<Longrightarrow>
     write_uart (Some p) c w = printf MSG_WRITE_NOT_INIT w \<and>
     accesses (write_uart (Some p) c w) = accesses w \<and>
     regs (write_uart (Some p) c w) = regs w \<and>
     handles (write_uart (Some p) c w) = handles w \<and>
     read_uart (Some p) w = (- 1, printf MSG_READ_NOT_INIT w) \<and>
     accesses (snd (read_uart (Some p) w)) = accesses w \<and>
     regs (snd (read_uart (Some p) w)) = regs w \<and>
     handles (snd (read_uart (Some p) w)) = handles w"
  by (simp add: write_uart_Some read_uart_Some)

theorem not_initialized_refused_witness:
  "\<not> isInitialized (handles start_world 0) \<and>
   write_uart (Some 0) 0x41 start_world = printf MSG_WRITE_NOT_INIT start_world \<and>
   accesses (write_uart (Some 0) 0x41 start_world) = [] \<and>
   regs (write_uart (Some 0) 0x41 start_world) 0xFC00000C = 0 \<and>
   handles (write_uart (Some 0) 0x41 start_world) 0 = blank_handle \<and>
   read_uart (Some 0) start_world = (- 1, printf MSG_READ_NOT_INIT start_world) \<and>
   accesses (snd (read_uart (Some 0) start_world)) = [] \<and>
   regs (snd (read_uart (Some 0) start_world)) 0xFC000010 = 0"
proof -
  have h: "\<not> isInitialized (handles start_world 0)"
    by (simp add: blank_handle_def)
  show ?thesis
    using h not_initialized_refused [OF h, of "0x41"] by simp
qed

text \<open>
  Claim C7 (null handle).  Called with a null handle, each of \<^verbatim>\<open>init_uart\<close>,
  \<^verbatim>\<open>write_uart\<close> and \<^verbatim>\<open>read_uart\<close> takes its null-handle error path: it prints
  \<^verbatim>\<open>Null pointer encountered\<close> and does nothing else, \<^verbatim>\<open>read_uart\<close> returning
  \<open>-1\<close>.  No register is accessed and no handle is changed.
\<close>

theorem null_handle_refused:
  "init_uart None useMock w = printf MSG_NULL w \<and>
   accesses (init_uart None useMock w) = accesses w \<and>
   regs (init_uart None useMock w) = regs w \<and>
   handles (init_uart None useMock w) = handles w \<and>
   write_uart None c w = printf MSG_NULL w \<and>
   accesses (write_uart None c w) = accesses w \<and>
   regs (write_uart None c w) = regs w \<and>
   handles (write_uart None c w) = handles w \<and>
   read_uart None w = (- 1, printf MSG_NULL w) \<and>
   accesses (snd (read_uart None w)) = accesses w \<and>
   regs (snd (read_uart None w)) = regs w \<and>
   handles (snd (read_uart None w)) = handles w"
  by (simp add: null_handle)

text \<open>
  Claim C8 (no transition leaves Ready).  \<^verbatim>\<open>write_uart\<close> and \<^verbatim>\<open>read_uart\<close> never
  change any field of any handle, whatever their outcome (so a call that times out
  leaves the handle as it was), and \<^verbatim>\<open>init_uart\<close> leaves every initialized handle
  initialized.
\<close>

theorem ready_state_never_left:
  "handles (write_uart h c w) = handles w \<and>
   handles (snd (read_uart h w)) = handles w \<and>
   (isInitialized (handles w q) \<longrightarrow> isInitialized (handles (init_uart h useMock w) q))"
proof (cases h)
  case None
  then show ?thesis by (simp add: null_handle)
next
  case (Some p)
  then show ?thesis
    by (simp add: write_uart_Some read_uart_Some init_uart_Some_handles)
qed

theorem ready_state_never_left_witness:
  "isInitialized (handles ready_world 0) \<and>
   stdout (write_uart (Some 0) 0x41 ready_world) = [MSG_WRITE_TIMEOUT] \<and>
   handles (write_uart (Some 0) 0x41 ready_world) = handles ready_world \<and>
   handles (snd (read_uart (Some 0) ready_world)) = handles ready_world \<and>
   isInitialized (handles (init_uart (Some 0) False ready_world) 0)"
proof -
  have h: "isInitialized (handles ready_world 0)" by simp
  have t: "stdout (write_uart (Some 0) 0x41 ready_world) = [MSG_WRITE_TIMEOUT]"
    by (simp add: write_uart_Some)
  show ?thesis
    using h t ready_state_never_left [of "Some 0" "0x41" ready_world 0 False] by simp
qed

text \<open>
  Claim C9 (idempotence of \<^verbatim>\<open>init_uart\<close>).  A second \<^verbatim>\<open>init_uart\<close> on the same
  non-null handle, with either value of the flag, leaves all handles (register
  addresses and \<^verbatim>\<open>isInitialized\<close>) and the whole register file (in particular the
  control and baud rate registers) as they were after the first call.  More generally,
  whatever happened since the first call (state \<open>w'\<close>), a further \<^verbatim>\<open>init_uart\<close> gives
  the handle and the control and baud rate registers the values the first call gave.
\<close>

theorem init_uart_idempotent:
  "handles (init_uart (Some p) useMock' (init_uart (Some p) useMock w)) =
     handles (init_uart (Some p) useMock w) \<and>
   regs (init_uart (Some p) useMock' (init_uart (Some p) useMock w)) =
     regs (init_uart (Some p) useMock w) \<and>
   handles (init_uart (Some p) useMock' w') p = handles (init_uart (Some p) useMock w) p \<and>
   regs (init_uart (Some p) useMock' w') 0xFC000000 =
     regs (init_uart (Some p) useMock w) 0xFC000000 \<and>
   regs (init_uart (Some p) useMock' w') 0xFC000004 =
     regs (init_uart (Some p) useMock w) 0xFC000004"
  by (simp add: init_uart_Some_handles init_uart_Some_regs fun_eq_iff)

text \<open>
  Claim C10 (return value of \<^verbatim>\<open>read_uart\<close>).  \<^verbatim>\<open>read_uart\<close> returns \<open>-1\<close> for a
  null handle, for an uninitialized handle and on timeout, and otherwise all 32 bits of
  the receive data register read as a signed \<^verbatim>\<open>int\<close>, with no masking.  So a
  successful read (status and receive data register loaded, nothing printed) of the
  register value \<open>0xFFFFFFFF\<close> returns \<open>-1\<close>, the error value.
\<close>

theorem read_uart_return_value:
  "fst (read_uart h w) =
     (case h of None \<Rightarrow> - 1
      | Some p \<Rightarrow>
          if \<not> isInitialized (handles w p) then - 1
          else if regs w (sta (handles w p)) AND 0x01 = 0 then - 1
          else sint (regs w (rdr (handles w p)))) \<and>
   (isInitialized (handles w p) \<and> regs w (sta (handles w p)) AND 0x01 \<noteq> 0 \<and>
    regs w (rdr (handles w p)) = 0xFFFFFFFF \<longrightarrow>
      fst (read_uart (Some p) w) = - 1 \<and>
      accesses (snd (read_uart (Some p) w)) =
        accesses w @ [Load (sta (handles w p)) (regs w (sta (handles w p))),
                      Load (rdr (handles w p)) 0xFFFFFFFF] \<and>
      stdout (snd (read_uart (Some p) w)) = stdout w)"
  by (cases h) (simp_all add: read_uart_Some null_handle)

theorem read_uart_return_value_witness:
  "isInitialized (handles (rx_world 0xFFFFFFFF) 0) \<and>
   regs (rx_world 0xFFFFFFFF) (sta (handles (rx_world 0xFFFFFFFF) 0)) AND 0x01 \<noteq> 0 \<and>
   regs (rx_world 0xFFFFFFFF) (rdr (handles (rx_world 0xFFFFFFFF) 0)) = 0xFFFFFFFF \<and>
   fst (read_uart (Some 0) (rx_world 0xFFFFFFFF)) = - 1 \<and>
   stdout (snd (read_uart (Some 0) (rx_world 0xFFFFFFFF))) = [] \<and>
   fst (read_uart (Some 0) (rx_world 0x42)) = 66"
proof -
  have h: "isInitialized (handles (rx_world 0xFFFFFFFF) 0) \<and>
     regs (rx_world 0xFFFFFFFF) (sta (handles (rx_world 0xFFFFFFFF) 0)) AND 0x01 \<noteq> 0 \<and>
     regs (rx_world 0xFFFFFFFF) (rdr (handles (rx_world 0xFFFFFFFF) 0)) = 0xFFFFFFFF"
    by simp
  show ?thesis
    using h read_uart_return_value [of "Some 0" "rx_world 0xFFFFFFFF" 0]
      read_uart_return_value [of "Some 0" "rx_world 0x42" 0]
    by simp
qed

end
